theory Spec2Isabelle
  imports Complex_Main
begin

section \<open>The tweet liker: data model\<close>

text \<open>
  The program is one Python file, \<^verbatim>\<open>tweets_app.py\<close>: a Streamlit page around the
  tweepy client. Its functions \<^verbatim>\<open>extract_rate_limit_info\<close>, \<^verbatim>\<open>check_tweet\<close>,
  \<^verbatim>\<open>like_tweet\<close> and \<^verbatim>\<open>authenticate_twitter\<close>, and the blocks of \<^verbatim>\<open>main\<close> that read
  and write the rate-limit fields of \<^verbatim>\<open>st.session_state\<close>, are embedded below.

  Conventions of the embedding:
  \<^item> \<^verbatim>\<open>time.time()\<close> is a Python float; readings are values of type \<open>real\<close> and float
    rounding is not modelled. \<^verbatim>\<open>int(x)\<close> on a float truncates towards zero.
  \<^item> A remote call either returns or raises; the client is a record of the answers the
    remote gives, and every function returns the list of remote calls it issued, in
    order.
  \<^item> Message strings are kept as constructors, one per message text of the source, with
    the interpolated values as arguments.
  \<^item> A key of \<^verbatim>\<open>st.session_state\<close> that may be absent is an \<open>option\<close> field.
\<close>

type_synonym tweet_id = string

text \<open>What \<^verbatim>\<open>int(headers[...])\<close> makes of a header's text: the integer it denotes, or
  \<^verbatim>\<open>ValueError\<close> when the text is not an integer literal.\<close>

datatype header_text = IntText int | NonIntText

text \<open>The \<^verbatim>\<open>response\<close> attribute of a tweepy exception. Header names are looked up as
  the source writes them (lower case). \<open>resp_text = None\<close> stands for a \<^verbatim>\<open>.text\<close> whose
  read raises, which the source guards with \<^verbatim>\<open>try/except: pass\<close>.\<close>

record response =
  headers :: "string \<rightharpoonup> header_text"
  status_code :: int
  resp_text :: "string option"

text \<open>The exception classes the source tells apart in its \<^verbatim>\<open>except\<close> clauses; every
  other exception is \<open>OtherException\<close>. \<open>exn_str\<close> is \<^verbatim>\<open>str(e)\<close>; \<open>exn_response\<close> is
  \<open>None\<close> when the exception has no \<^verbatim>\<open>response\<close> attribute or it is \<^verbatim>\<open>None\<close>.\<close>

datatype exn_class = TooManyRequests | Unauthorized | NotFound | Forbidden | OtherException

datatype exn = Exn (exn_cls: exn_class) (exn_str: string) (exn_response: "response option")

text \<open>Exceptions the program's own statements raise.\<close>

datatype py_error = ValueError | AttributeError | OverflowError | OSError

datatype 'a remote = Returns 'a | Raises exn

text \<open>\<^verbatim>\<open>client.get_tweet\<close>: \<open>NoData\<close> when the reply or its \<^verbatim>\<open>data\<close> is falsy, else the
  data with its \<^verbatim>\<open>text\<close> attribute if it has one. \<^verbatim>\<open>client.get_me\<close>: \<open>NoUser\<close> likewise,
  else the user's id and name. \<^verbatim>\<open>client.like\<close> returns a response, kept as its
  \<^verbatim>\<open>str\<close>.\<close>

datatype tweet_reply = NoData | Data "string option"

datatype me_reply = NoUser | User int string

record client =
  get_me :: "me_reply remote"
  get_tweet :: "tweet_id \<Rightarrow> tweet_reply remote"
  like :: "tweet_id \<Rightarrow> string remote"

datatype call = GetMe | GetTweet tweet_id | Like tweet_id

text \<open>The keys of \<^verbatim>\<open>st.session_state\<close> that the rate-limit logic reads and writes.\<close>

record session_state =
  last_request_time :: "real list option"
  rate_limited :: "bool option"
  rate_limit_reset :: "int option"
  rate_limit_retry_after :: "int option"
  cancel_countdown :: "bool option"
  last_response :: "string option"

text \<open>\<^verbatim>\<open>st.session_state.get('rate_limited', False)\<close>.\<close>

definition get_rate_limited :: "session_state \<Rightarrow> bool" where
  "get_rate_limited s = (case rate_limited s of None \<Rightarrow> False | Some b \<Rightarrow> b)"

definition py_int :: "real \<Rightarrow> int" where
  "py_int x = (if 0 \<le> x then \<lfloor>x\<rfloor> else \<lceil>x\<rceil>)"

section \<open>extract\_rate\_limit\_info (lines 133-153)\<close>

text \<open>
  The function reads the clock on line 135 and again on line 144 or 147; whichever
  branch runs, one reading alone determines the result, and \<open>now\<close> is that reading.

  Line 152 renders the reset time with \<^verbatim>\<open>time.localtime\<close>, which raises
  \<^verbatim>\<open>OverflowError\<close> or \<^verbatim>\<open>OSError\<close> for a timestamp outside the range of the
  platform. The range is not part of the source: \<open>localtime\<close> is a parameter, what
  \<^verbatim>\<open>time.localtime\<close> raises for a timestamp, \<open>None\<close> where it returns. The rendered
  text itself, the \<^verbatim>\<open>formatted_time\<close> entry of the returned dict, is not kept.
\<close>

record rate_info =
  reset_time :: int
  retry_after :: int

text \<open>Lines 135-147: the reset time and the retry delay, before line 152.\<close>

definition read_rate_limit_headers :: "exn \<Rightarrow> real \<Rightarrow> py_error + rate_info" where
  "read_rate_limit_headers error now =
     (let dflt = \<lparr>reset_time = py_int now + 3 * 60, retry_after = 3 * 60\<rparr> in
      case exn_response error of
        None \<Rightarrow> Inr dflt
      | Some r \<Rightarrow>
          (case headers r ''x-rate-limit-reset'' of
             Some h \<Rightarrow>
               (case h of
                  NonIntText \<Rightarrow> Inl ValueError
                | IntText v \<Rightarrow> Inr \<lparr>reset_time = v, retry_after = max (v - py_int now) 0\<rparr>)
           | None \<Rightarrow>
               (case headers r ''retry-after'' of
                  Some h \<Rightarrow>
                    (case h of
                       NonIntText \<Rightarrow> Inl ValueError
                     | IntText v \<Rightarrow> Inr \<lparr>reset_time = py_int now + v, retry_after = v\<rparr>)
                | None \<Rightarrow> Inr dflt)))"

definition extract_rate_limit_info ::
  "(int \<Rightarrow> py_error option) \<Rightarrow> exn \<Rightarrow> real \<Rightarrow> py_error + rate_info" where
  "extract_rate_limit_info localtime error now =
     (case read_rate_limit_headers error now of
        Inl err \<Rightarrow> Inl err
      | Inr rate_info \<Rightarrow>
          (case localtime (reset_time rate_info) of
             Some err \<Rightarrow> Inl err
           | None \<Rightarrow> Inr rate_info))"

section \<open>check\_tweet (lines 157-167)\<close>

datatype check_msg =
    TweetText string
  | ContentNotAccessible
  | NotFoundOrNotAccessible
  | TweetNotFound
  | ErrorCheckingTweet string

definition check_tweet :: "client \<Rightarrow> tweet_id \<Rightarrow> (bool \<times> check_msg) \<times> call list" where
  "check_tweet c tid =
     ((case get_tweet c tid of
         Returns NoData \<Rightarrow> (False, NotFoundOrNotAccessible)
       | Returns (Data None) \<Rightarrow> (True, ContentNotAccessible)
       | Returns (Data (Some t)) \<Rightarrow> (True, TweetText t)
       | Raises e \<Rightarrow>
           (if exn_cls e = NotFound then (False, TweetNotFound)
            else (False, ErrorCheckingTweet (exn_str e)))),
      [GetTweet tid])"

section \<open>like\_tweet (lines 171-250)\<close>

text \<open>
  The messages of \<^verbatim>\<open>like_tweet\<close>. The optional last argument is the
  \<^verbatim>\<open>Details: {e.response.text}\<close> suffix (for the catch-all clause, status and details,
  which one guarded statement appends together).
\<close>

datatype like_msg =
    ClientNotAuthenticated
  | CannotLikeTweet check_msg
  | LikedSuccessfully string
  | RateLimitExceeded int int "string option"
  | AuthenticationError "string option"
  | TweetIdNotFound tweet_id "string option"
  | ForbiddenToLike tweet_id "string option"
  | ErrorLikingTweet string "(int \<times> string) option"

definition details :: "exn \<Rightarrow> string option" where
  "details e = (case exn_response e of None \<Rightarrow> None | Some r \<Rightarrow> resp_text r)"

definition status_and_details :: "exn \<Rightarrow> (int \<times> string) option" where
  "status_and_details e =
     (case exn_response e of
        None \<Rightarrow> None
      | Some r \<Rightarrow> (case resp_text r of None \<Rightarrow> None | Some t \<Rightarrow> Some (status_code r, t)))"

text \<open>Lines 188-195: the time of a successful request is appended and the list is kept
  to its last ten entries.\<close>

definition store_request_time :: "real \<Rightarrow> session_state \<Rightarrow> session_state" where
  "store_request_time now s =
     (let times = (case last_request_time s of None \<Rightarrow> [] | Some ts \<Rightarrow> ts) @ [now] in
      s\<lparr>last_request_time := Some (if length times > 10 then tl times else times)\<rparr>)"

text \<open>Lines 200-206: the rate limit read from the error is stored in the session.\<close>

definition store_rate_limit_info ::
  "(int \<Rightarrow> py_error option) \<Rightarrow> exn \<Rightarrow> real \<Rightarrow> session_state \<Rightarrow>
     py_error + rate_info \<times> session_state" where
  "store_rate_limit_info localtime e now s =
     (case extract_rate_limit_info localtime e now of
        Inl err \<Rightarrow> Inl err
      | Inr rate_info \<Rightarrow>
          Inr (rate_info,
               s\<lparr>rate_limited := Some True,
                 rate_limit_reset := Some (reset_time rate_info),
                 rate_limit_retry_after := Some (retry_after rate_info)\<rparr>))"

text \<open>
  \<open>now\<close> is the clock reading of the call: line 193 on success, the reading of
  \<^verbatim>\<open>extract_rate_limit_info\<close> on a rate limit. An exception raised inside an
  \<^verbatim>\<open>except\<close> clause leaves the function (\<open>Inl\<close>).
\<close>

definition like_tweet ::
  "(int \<Rightarrow> py_error option) \<Rightarrow> client option \<Rightarrow> tweet_id \<Rightarrow> real \<Rightarrow> session_state \<Rightarrow>
     (py_error + bool \<times> like_msg) \<times> session_state \<times> call list" where
  "like_tweet localtime cl tid now s =
     (case cl of
        None \<Rightarrow> (Inr (False, ClientNotAuthenticated), s, [])
      | Some c \<Rightarrow>
          (case check_tweet c tid of
             ((tweet_exists, tweet_text), calls) \<Rightarrow>
               if \<not> tweet_exists then (Inr (False, CannotLikeTweet tweet_text), s, calls)
               else
                 (case like c tid of
                    Returns resp \<Rightarrow>
                      (Inr (True, LikedSuccessfully resp),
                       store_request_time now (s\<lparr>last_response := Some resp\<rparr>),
                       calls @ [Like tid])
                  | Raises e \<Rightarrow>
                      (case exn_cls e of
                         TooManyRequests \<Rightarrow>
                           (case store_rate_limit_info localtime e now s of
                              Inl err \<Rightarrow> (Inl err, s, calls @ [Like tid])
                            | Inr (rate_info, s') \<Rightarrow>
                                (Inr (False,
                                      RateLimitExceeded (reset_time rate_info)
                                        (retry_after rate_info) (details e)),
                                 s', calls @ [Like tid]))
                       | Unauthorized \<Rightarrow>
                           (Inr (False, AuthenticationError (details e)), s, calls @ [Like tid])
                       | NotFound \<Rightarrow>
                           (Inr (False, TweetIdNotFound tid (details e)), s, calls @ [Like tid])
                       | Forbidden \<Rightarrow>
                           (Inr (False, ForbiddenToLike tid (details e)), s, calls @ [Like tid])
                       | OtherException \<Rightarrow>
                           (Inr (False, ErrorLikingTweet (exn_str e) (status_and_details e)),
                            s, calls @ [Like tid])))))"

section \<open>authenticate\_twitter (lines 62-91)\<close>

text \<open>
  \<open>tweepy_Client\<close> is the constructor call of lines 65-72: the handle built from the
  five credentials, with the answers the remote gives it; building the handle issues no
  request and is taken not to raise. The messages: success with
  the user's name and id; the fixed text for a reply without user data; and
  \<^verbatim>\<open>Authentication failed: {str(e)}\<close> with the status code appended when the
  exception has a response and the details when its text can be read.
\<close>

datatype auth_msg =
    AuthenticationSuccessful string int
  | CouldntFetchUserDetails
  | AuthenticationFailed string "int option" "string option"

definition authenticate_twitter ::
  "(string \<Rightarrow> string \<Rightarrow> string \<Rightarrow> string \<Rightarrow> string \<Rightarrow> client) \<Rightarrow>
   string \<Rightarrow> string \<Rightarrow> string \<Rightarrow> string \<Rightarrow> string \<Rightarrow>
     (client option \<times> bool \<times> auth_msg) \<times> call list" where
  "authenticate_twitter tweepy_Client bearer_token api_key api_secret access_token access_secret =
     (let c = tweepy_Client bearer_token api_key api_secret access_token access_secret in
      ((case get_me c of
          Returns (User user_id username) \<Rightarrow>
            (Some c, True, AuthenticationSuccessful username user_id)
        | Returns NoUser \<Rightarrow> (None, False, CouldntFetchUserDetails)
        | Raises e \<Rightarrow>
            (None, False,
             AuthenticationFailed (exn_str e)
               (case exn_response e of None \<Rightarrow> None | Some r \<Rightarrow> Some (status_code r))
               (details e))),
       [GetMe]))"

section \<open>The rate-limit blocks of main\<close>

text \<open>What the page shows, one constructor per message of the source.\<close>

datatype ui =
    WriteRecentRequests nat real
  | WriteEstimatedRemaining real
  | WriteNoRecentRequests
  | WarningRateLimited real
  | WriteResetTime int
  | ErrorPleaseEnterTweetId
  | ErrorCurrentlyRateLimited real
  | StSuccess like_msg
  | StError like_msg
  | Metric int int
  | SuccessRateLimitReset

subsection \<open>The capacity estimate (lines 429-439)\<close>

definition est_remaining :: "nat \<Rightarrow> real \<Rightarrow> real" where
  "est_remaining recent_count time_span =
     max (50 - (real recent_count * (24 * 60 * 60) / max time_span 1)) 0"

definition show_estimate :: "real \<Rightarrow> session_state \<Rightarrow> ui list" where
  "show_estimate now s =
     (case last_request_time s of
        None \<Rightarrow> [WriteNoRecentRequests]
      | Some [] \<Rightarrow> [WriteNoRecentRequests]
      | Some (oldest_time # rest) \<Rightarrow>
          (let recent_count = length (oldest_time # rest);
               time_span = now - oldest_time
           in [WriteRecentRequests recent_count time_span,
               WriteEstimatedRemaining (est_remaining recent_count time_span)]))"

subsection \<open>The rate-limit warning (lines 442-451)\<close>

text \<open>Reading \<^verbatim>\<open>st.session_state.rate_limit_reset\<close> when the key is absent raises
  \<^verbatim>\<open>AttributeError\<close>. Lines 449-450 render the reset time with \<^verbatim>\<open>time.localtime\<close>
  as line 152 does.\<close>

definition show_rate_limit_warning ::
  "(int \<Rightarrow> py_error option) \<Rightarrow> real \<Rightarrow> session_state \<Rightarrow>
     py_error + ui list \<times> session_state" where
  "show_rate_limit_warning localtime now s =
     (if get_rate_limited s then
        (case rate_limit_reset s of
           None \<Rightarrow> Inl AttributeError
         | Some reset \<Rightarrow>
             (let remaining_time = max (real_of_int reset - now) 0 in
              if remaining_time \<le> 0 then Inr ([], s\<lparr>rate_limited := Some False\<rparr>)
              else
                (case localtime reset of
                   Some err \<Rightarrow> Inl err
                 | None \<Rightarrow> Inr ([WarningRateLimited remaining_time, WriteResetTime reset], s))))
      else Inr ([], s))"

subsection \<open>The countdown (lines 504-523)\<close>

text \<open>\<^verbatim>\<open>range(n, 0, -1)\<close>: \<open>n, n - 1, ..., 1\<close>, empty when \<open>n \<le> 0\<close>.\<close>

fun count_down_from :: "nat \<Rightarrow> int list" where
  "count_down_from 0 = []"
| "count_down_from (Suc n) = int (Suc n) # count_down_from n"

definition range_down :: "int \<Rightarrow> int list" where
  "range_down n = count_down_from (nat n)"

text \<open>How the \<^verbatim>\<open>for\<close> loop ended: its range ran out, or \<^verbatim>\<open>break\<close>.\<close>

datatype loop_exit = Exhausted | Break

text \<open>
  The loop body: \<open>cancel k\<close> is what the \<open>k\<close>-th iteration reads from
  \<^verbatim>\<open>st.session_state.get('cancel_countdown', False)\<close> (the loop itself never writes the
  flag). An iteration that is not cancelled shows \<open>remaining\<close> and sleeps one second.
  The result is the list of values shown and the way the loop ended.
\<close>

fun countdown :: "(nat \<Rightarrow> bool) \<Rightarrow> nat \<Rightarrow> int list \<Rightarrow> int list \<times> loop_exit" where
  "countdown cancel k [] = ([], Exhausted)"
| "countdown cancel k (remaining # rest) =
     (if cancel k then ([], Break)
      else (case countdown cancel (Suc k) rest of
              (ticks, ex) \<Rightarrow> (remaining # ticks, ex)))"

text \<open>\<^verbatim>\<open>divmod(remaining, 60)\<close>, shown as \<^verbatim>\<open>MM:SS\<close>.\<close>

definition countdown_text :: "int \<Rightarrow> ui" where
  "countdown_text remaining = Metric (remaining div 60) (remaining mod 60)"

subsection \<open>The Like Tweet button (lines 473-523)\<close>

text \<open>
  \<open>now\<close> is the clock reading of line 478, \<open>now'\<close> the one inside \<^verbatim>\<open>like_tweet\<close>.
  The result is what the page shows (or the exception that ends the run), the session
  state and the remote calls issued.
\<close>

definition show_result :: "bool \<times> like_msg \<Rightarrow> ui" where
  "show_result r = (case r of (success, message) \<Rightarrow>
     if success then StSuccess message else StError message)"

definition like_button ::
  "(int \<Rightarrow> py_error option) \<Rightarrow> client option \<Rightarrow> tweet_id \<Rightarrow> real \<Rightarrow> real \<Rightarrow> (nat \<Rightarrow> bool) \<Rightarrow> session_state \<Rightarrow>
     (py_error + ui list) \<times> session_state \<times> call list" where
  "like_button localtime cl tid now now' cancel s =
     (if tid = [] then (Inr [ErrorPleaseEnterTweetId], s, [])
      else if get_rate_limited s then
        (case rate_limit_reset s of
           None \<Rightarrow> (Inl AttributeError, s, [])
         | Some reset \<Rightarrow>
             (let remaining_time = max (real_of_int reset - now) 0 in
              if remaining_time > 0 then (Inr [ErrorCurrentlyRateLimited remaining_time], s, [])
              else
                (case like_tweet localtime cl tid now' (s\<lparr>rate_limited := Some False\<rparr>) of
                   (Inl err, s', calls) \<Rightarrow> (Inl err, s', calls)
                 | (Inr r, s', calls) \<Rightarrow> (Inr [show_result r], s', calls))))
      else
        (case like_tweet localtime cl tid now' s of
           (Inl err, s', calls) \<Rightarrow> (Inl err, s', calls)
         | (Inr (success, message), s', calls) \<Rightarrow>
             if success then (Inr [StSuccess message], s', calls)
             else if get_rate_limited s' then
               (case (rate_limit_reset s', rate_limit_retry_after s') of
                  (Some reset, Some retry) \<Rightarrow>
                    (case countdown cancel 0 (range_down retry) of
                       (ticks, ex) \<Rightarrow>
                         (Inr (StError message # map countdown_text ticks @ [SuccessRateLimitReset]),
                          s'\<lparr>cancel_countdown := Some False, rate_limited := Some False\<rparr>,
                          calls))
                | _ \<Rightarrow> (Inl AttributeError, s', calls))
             else (Inr [StError message], s', calls)))"

section \<open>Readings of the session and example inputs\<close>

text \<open>A session in which none of the keys has been set yet.\<close>

definition fresh_session :: session_state where
  "fresh_session = \<lparr>last_request_time = None, rate_limited = None, rate_limit_reset = None,
     rate_limit_retry_after = None, cancel_countdown = None, last_response = None\<rparr>"

text \<open>The tracked request times as line 429 reads them: an absent key and an empty
  list are the same.\<close>

definition recent_requests :: "session_state \<Rightarrow> real list" where
  "recent_requests s = (case last_request_time s of None \<Rightarrow> [] | Some ts \<Rightarrow> ts)"

text \<open>Example inputs: a client whose \<^verbatim>\<open>get_tweet\<close> and \<^verbatim>\<open>like\<close> give fixed answers, an
  HTTP exception of a given class with a response, a session in which a rate limit is
  recorded, and a service that answers every call of the handle it builds with one
  exception.\<close>

definition remote_client :: "tweet_reply remote \<Rightarrow> string remote \<Rightarrow> client" where
  "remote_client g l = \<lparr>get_me = Returns (User 7 ''me''), get_tweet = (\<lambda>_. g), like = (\<lambda>_. l)\<rparr>"

definition http_error :: "exn_class \<Rightarrow> int \<Rightarrow> (string \<rightharpoonup> header_text) \<Rightarrow> exn" where
  "http_error k code h =
     Exn k ''HTTP error'' (Some \<lparr>headers = h, status_code = code, resp_text = Some ''body''\<rparr>)"

definition limited_session :: "int \<Rightarrow> int \<Rightarrow> session_state" where
  "limited_session reset retry =
     fresh_session\<lparr>rate_limited := Some True, rate_limit_reset := Some reset,
                   rate_limit_retry_after := Some retry\<rparr>"

text \<open>A platform whose \<^verbatim>\<open>time.localtime\<close> takes the timestamps of a signed 32-bit
  time type.\<close>

definition localtime_32 :: "int \<Rightarrow> py_error option" where
  "localtime_32 t =
     (if - 2147483648 \<le> t \<and> t < 2147483648 then None else Some OverflowError)"

definition refusing_service ::
  "exn \<Rightarrow> string \<Rightarrow> string \<Rightarrow> string \<Rightarrow> string \<Rightarrow> string \<Rightarrow> client" where
  "refusing_service e bearer_token api_key api_secret access_token access_secret =
     \<lparr>get_me = Raises e, get_tweet = (\<lambda>_. Raises e), like = (\<lambda>_. Raises e)\<rparr>"

text \<open>A service whose identity call returns no user data.\<close>

definition silent_service :: "string \<Rightarrow> string \<Rightarrow> string \<Rightarrow> string \<Rightarrow> string \<Rightarrow> client" where
  "silent_service bearer_token api_key api_secret access_token access_secret =
     \<lparr>get_me = Returns NoUser, get_tweet = (\<lambda>_. Returns NoData), like = (\<lambda>_. Returns [])\<rparr>"

section \<open>The tracked request times\<close>

lemma recent_requests_store:
  "recent_requests (store_request_time t s) =
     (if length (recent_requests s) \<ge> 10 then tl (recent_requests s @ [t])
      else recent_requests s @ [t])"
  by (auto simp: recent_requests_def store_request_time_def Let_def split: option.splits)

lemma tl_drop_snoc:
  assumes "10 \<le> length ts"
  shows "tl (drop (length ts - 10) ts @ [t]) = drop (Suc (length ts) - 10) (ts @ [t])"
proof -
  have ne: "drop (length ts - 10) ts \<noteq> []" using assms by simp
  have "tl (drop (length ts - 10) ts @ [t]) = tl (drop (length ts - 10) ts) @ [t]"
    using ne by simp
  also have "tl (drop (length ts - 10) ts) = drop (Suc (length ts - 10)) ts"
    by (simp add: drop_Suc tl_drop)
  also have "Suc (length ts - 10) = Suc (length ts) - 10" using assms by simp
  finally show ?thesis using assms by simp
qed

lemma recent_requests_foldl:
  assumes "last_request_time s0 = None"
  shows "recent_requests (foldl (\<lambda>s t. store_request_time t s) s0 ts) = drop (length ts - 10) ts"
proof (induction ts rule: rev_induct)
  case Nil
  then show ?case using assms by (simp add: recent_requests_def)
next
  case (snoc t ts)
  show ?case
  proof (cases "10 \<le> length ts")
    case True
    have "recent_requests (foldl (\<lambda>s t. store_request_time t s) s0 (ts @ [t])) =
            tl (drop (length ts - 10) ts @ [t])"
      using True snoc by (simp add: recent_requests_store)
    also have "\<dots> = drop (Suc (length ts) - 10) (ts @ [t])"
      by (rule tl_drop_snoc [OF True])
    finally show ?thesis by simp
  next
    case False
    then show ?thesis using snoc by (simp add: recent_requests_store)
  qed
qed

text \<open>
  Claim C5. Starting from a session that tracks no request yet, after the successful
  requests at times \<open>ts\<close> (in this order) the tracked list is \<open>ts\<close> without its first
  \<open>length ts - 10\<close> entries: it has \<open>min (length ts) 10\<close> entries, the most recent ones in
  order, the oldest dropped first; up to ten requests are all kept.
\<close>

theorem store_request_time_last_ten:
  assumes "last_request_time s0 = None"
  shows "recent_requests (foldl (\<lambda>s t. store_request_time t s) s0 ts) = drop (length ts - 10) ts
       \<and> length (recent_requests (foldl (\<lambda>s t. store_request_time t s) s0 ts)) = min (length ts) 10
       \<and> (length ts \<le> 10 \<longrightarrow> recent_requests (foldl (\<lambda>s t. store_request_time t s) s0 ts) = ts)"
  using recent_requests_foldl [OF assms, of ts] by auto

theorem store_request_time_last_ten_witness:
  "recent_requests
     (foldl (\<lambda>s t. store_request_time t s) fresh_session [1, 2, 3, 4, 5, 6, 7, 8, 9, 10, 11, 12])
     = [3, 4, 5, 6, 7, 8, 9, 10, 11, 12]
   \<and> recent_requests (foldl (\<lambda>s t. store_request_time t s) fresh_session [5, 6]) = [5, 6]"
proof -
  have h: "last_request_time fresh_session = None" by (simp add: fresh_session_def)
  show ?thesis
    using store_request_time_last_ten [OF h, of "[1, 2, 3, 4, 5, 6, 7, 8, 9, 10, 11, 12]"]
          store_request_time_last_ten [OF h, of "[5, 6]"]
    by simp
qed

section \<open>The calls and the state changes of like\_tweet\<close>

lemma check_tweet_calls: "snd (check_tweet c tid) = [GetTweet tid]"
  by (simp add: check_tweet_def)

lemma like_tweet_no_client:
  "like_tweet localtime None tid now s = (Inr (False, ClientNotAuthenticated), s, [])"
  by (simp add: like_tweet_def)

lemma like_tweet_unverified:
  assumes "\<not> fst (fst (check_tweet c tid))"
  shows "like_tweet localtime (Some c) tid now s =
           (Inr (False, CannotLikeTweet (snd (fst (check_tweet c tid)))), s, [GetTweet tid])"
proof -
  obtain b m where cm: "check_tweet c tid = ((b, m), [GetTweet tid])"
    using check_tweet_calls [of c tid] by (metis prod.collapse)
  with assms have "\<not> b" by simp
  then show ?thesis using cm by (simp add: like_tweet_def)
qed

lemma like_tweet_verified_calls:
  assumes "fst (fst (check_tweet c tid))"
  shows "snd (snd (like_tweet localtime (Some c) tid now s)) = [GetTweet tid, Like tid]"
proof -
  obtain b m where cm: "check_tweet c tid = ((b, m), [GetTweet tid])"
    using check_tweet_calls [of c tid] by (metis prod.collapse)
  with assms have "b" by simp
  then show ?thesis using cm
    by (simp add: like_tweet_def split: remote.splits exn_class.splits sum.splits prod.splits)
qed

lemma like_tweet_rate_fields:
  assumes "like_tweet localtime cl tid now s = (res, s', calls)"
    and "rate_limited s' \<noteq> rate_limited s \<or> rate_limit_reset s' \<noteq> rate_limit_reset s
         \<or> rate_limit_retry_after s' \<noteq> rate_limit_retry_after s"
  shows "\<exists>c e. cl = Some c \<and> fst (fst (check_tweet c tid)) \<and> like c tid = Raises e
               \<and> exn_cls e = TooManyRequests"
proof (cases cl)
  case None
  then show ?thesis using assms by (simp add: like_tweet_no_client)
next
  case (Some c)
  show ?thesis
  proof (cases "fst (fst (check_tweet c tid))")
    case False
    then show ?thesis using assms Some like_tweet_unverified [OF False, where localtime = localtime and now = now and s = s] by auto
  next
    case True
    obtain b m where cm: "check_tweet c tid = ((b, m), [GetTweet tid])"
      using check_tweet_calls [of c tid] by (metis prod.collapse)
    with True have b: "b" by simp
    show ?thesis
    proof (cases "like c tid")
      case (Returns r)
      then show ?thesis using assms Some cm b
        by (auto simp: like_tweet_def store_request_time_def Let_def)
    next
      case (Raises e)
      then show ?thesis using assms Some cm b True
        by (cases "exn_cls e")
           (auto simp: like_tweet_def store_rate_limit_info_def split: sum.splits)
    qed
  qed
qed

lemma like_button_calls:
  "snd (snd (like_button localtime cl tid now now' cancel s)) = []
   \<or> snd (snd (like_button localtime cl tid now now' cancel s)) = snd (snd (like_tweet localtime cl tid now' s))
   \<or> snd (snd (like_button localtime cl tid now now' cancel s))
       = snd (snd (like_tweet localtime cl tid now' (s\<lparr>rate_limited := Some False\<rparr>)))"
  by (auto simp: like_button_def Let_def split: option.splits sum.splits prod.splits)

lemma like_tweet_like_call:
  assumes "Like t \<in> set (snd (snd (like_tweet localtime cl tid now s)))"
  shows "\<exists>c. cl = Some c \<and> fst (fst (check_tweet c tid)) \<and> t = tid
             \<and> snd (snd (like_tweet localtime cl tid now s)) = [GetTweet tid, Like tid]"
proof (cases cl)
  case None
  then show ?thesis using assms by (simp add: like_tweet_no_client)
next
  case (Some c')
  show ?thesis
  proof (cases "fst (fst (check_tweet c' tid))")
    case True
    then show ?thesis
      using assms Some like_tweet_verified_calls [OF True, where localtime = localtime and now = now and s = s] by auto
  next
    case False
    then show ?thesis
      using assms Some like_tweet_unverified [OF False, where localtime = localtime and now = now and s = s] by auto
  qed
qed

section \<open>Verification before the write\<close>

text \<open>
  Claim C2. Whenever \<^verbatim>\<open>like_tweet\<close>, or a press of the Like Tweet button, issues the
  write call \<open>Like t\<close>, there is a client, the target is the requested tweet,
  \<^verbatim>\<open>check_tweet\<close> on that tweet has succeeded, and the calls issued are exactly the
  fetch of that tweet followed by the write. When
  \<^verbatim>\<open>check_tweet\<close> fails, \<^verbatim>\<open>like_tweet\<close> returns the failure
  \<^verbatim>\<open>Cannot like tweet: ...\<close>, the session is unchanged and the fetch is the only
  call.
\<close>

theorem like_tweet_write_after_verify:
  "(Like t \<in> set (snd (snd (like_tweet localtime cl tid now' s))) \<longrightarrow>
      (\<exists>c. cl = Some c \<and> fst (fst (check_tweet c tid)) \<and> t = tid
           \<and> snd (snd (like_tweet localtime cl tid now' s)) = [GetTweet tid, Like tid]))
   \<and> (Like t \<in> set (snd (snd (like_button localtime cl tid now now' cancel s))) \<longrightarrow>
      (\<exists>c. cl = Some c \<and> fst (fst (check_tweet c tid)) \<and> t = tid
           \<and> snd (snd (like_button localtime cl tid now now' cancel s)) = [GetTweet tid, Like tid]))
   \<and> (cl = Some c \<and> \<not> fst (fst (check_tweet c tid)) \<longrightarrow>
        like_tweet localtime cl tid now' s =
          (Inr (False, CannotLikeTweet (snd (fst (check_tweet c tid)))), s, [GetTweet tid]))"
proof (intro conjI impI)
  assume "Like t \<in> set (snd (snd (like_tweet localtime cl tid now' s)))"
  then show "\<exists>c. cl = Some c \<and> fst (fst (check_tweet c tid)) \<and> t = tid
           \<and> snd (snd (like_tweet localtime cl tid now' s)) = [GetTweet tid, Like tid]"
    by (rule like_tweet_like_call)
next
  assume a: "Like t \<in> set (snd (snd (like_button localtime cl tid now now' cancel s)))"
  from like_button_calls [where localtime = localtime and cl = cl and tid = tid and now = now
      and now' = now' and cancel = cancel and s = s]
  consider "snd (snd (like_button localtime cl tid now now' cancel s)) = []"
    | "snd (snd (like_button localtime cl tid now now' cancel s)) = snd (snd (like_tweet localtime cl tid now' s))"
    | "snd (snd (like_button localtime cl tid now now' cancel s))
       = snd (snd (like_tweet localtime cl tid now' (s\<lparr>rate_limited := Some False\<rparr>)))"
    by blast
  then show "\<exists>c. cl = Some c \<and> fst (fst (check_tweet c tid)) \<and> t = tid
           \<and> snd (snd (like_button localtime cl tid now now' cancel s)) = [GetTweet tid, Like tid]"
  proof cases
    case 1
    then show ?thesis using a by simp
  next
    case 2
    then show ?thesis using a like_tweet_like_call [where localtime = localtime and t = t and cl = cl and tid = tid
        and now = now' and s = s] by simp
  next
    case 3
    then show ?thesis
      using a like_tweet_like_call [where localtime = localtime and t = t and cl = cl and tid = tid
        and now = now' and s = "s\<lparr>rate_limited := Some False\<rparr>"] by simp
  qed
next
  assume "cl = Some c \<and> \<not> fst (fst (check_tweet c tid))"
  then show "like_tweet localtime cl tid now' s =
          (Inr (False, CannotLikeTweet (snd (fst (check_tweet c tid)))), s, [GetTweet tid])"
    using like_tweet_unverified [where localtime = localtime and c = c and tid = tid and now = now'
      and s = s] by simp
qed

theorem like_tweet_write_after_verify_witness:
  "Like ''42'' \<in> set (snd (snd (like_tweet localtime_32
        (Some (remote_client (Returns (Data (Some ''hi''))) (Returns ''ok''))) ''42'' 100 fresh_session)))
   \<and> fst (fst (check_tweet (remote_client (Returns (Data (Some ''hi''))) (Returns ''ok'')) ''42''))
   \<and> snd (snd (like_tweet localtime_32
        (Some (remote_client (Returns (Data (Some ''hi''))) (Returns ''ok''))) ''42'' 100 fresh_session))
        = [GetTweet ''42'', Like ''42'']
   \<and> \<not> fst (fst (check_tweet (remote_client (Returns NoData) (Returns ''ok'')) ''42''))
   \<and> like_tweet localtime_32 (Some (remote_client (Returns NoData) (Returns ''ok''))) ''42'' 100 fresh_session
        = (Inr (False, CannotLikeTweet NotFoundOrNotAccessible), fresh_session, [GetTweet ''42''])"
proof -
  let ?c = "remote_client (Returns (Data (Some ''hi''))) (Returns ''ok'')"
  let ?d = "remote_client (Returns NoData) (Returns ''ok'')"
  have a: "Like ''42'' \<in> set (snd (snd (like_tweet localtime_32 (Some ?c) ''42'' 100 fresh_session)))"
    by (simp add: like_tweet_def check_tweet_def remote_client_def)
  have b: "\<not> fst (fst (check_tweet ?d ''42''))"
    and c: "snd (fst (check_tweet ?d ''42'')) = NotFoundOrNotAccessible"
    by (simp_all add: check_tweet_def remote_client_def)
  show ?thesis
    using a b c
      like_tweet_write_after_verify [where localtime = localtime_32 and t = "''42''"
        and cl = "Some ?c" and tid = "''42''"
        and now' = 100 and s = fresh_session and c = ?c]
      like_tweet_write_after_verify [where localtime = localtime_32 and t = "''42''"
        and cl = "Some ?d" and tid = "''42''"
        and now' = 100 and s = fresh_session and c = ?d]
    by simp
qed

section \<open>A target that is not found\<close>

text \<open>
  Claim C8. When \<^verbatim>\<open>check_tweet\<close> reports the tweet as not found (the fetch raised
  \<^verbatim>\<open>tweepy.NotFound\<close>, or returned no data), \<^verbatim>\<open>like_tweet\<close> returns the failure
  \<^verbatim>\<open>Cannot like tweet: Tweet not found\<close> (\<^verbatim>\<open>... or not accessible\<close>) and the
  session state it returns is the one it was given: the tracked request times and the
  rate-limit fields, like every other key, are untouched. The same holds for the Like
  Tweet button pressed with a tweet id while no rate limit is recorded.
\<close>

theorem like_tweet_target_not_found:
  assumes "fst (check_tweet c tid) = (False, m)"
    and "m = TweetNotFound \<or> m = NotFoundOrNotAccessible"
  shows "like_tweet localtime (Some c) tid now' s = (Inr (False, CannotLikeTweet m), s, [GetTweet tid])
       \<and> (tid \<noteq> [] \<and> \<not> get_rate_limited s \<longrightarrow>
            like_button localtime (Some c) tid now now' cancel s =
              (Inr [StError (CannotLikeTweet m)], s, [GetTweet tid]))"
proof -
  have nv: "\<not> fst (fst (check_tweet c tid))" using assms(1) by simp
  have lt: "like_tweet localtime (Some c) tid now' s = (Inr (False, CannotLikeTweet m), s, [GetTweet tid])"
    using like_tweet_unverified [OF nv, where localtime = localtime and now = now' and s = s] assms(1) by simp
  then show ?thesis by (simp add: like_button_def)
qed

theorem like_tweet_target_not_found_witness:
  "fst (check_tweet (remote_client (Raises (http_error NotFound 404 Map.empty)) (Returns ''ok'')) ''999'')
      = (False, TweetNotFound)
   \<and> like_tweet localtime_32 (Some (remote_client (Raises (http_error NotFound 404 Map.empty)) (Returns ''ok'')))
        ''999'' 100 fresh_session
      = (Inr (False, CannotLikeTweet TweetNotFound), fresh_session, [GetTweet ''999''])
   \<and> like_button localtime_32 (Some (remote_client (Raises (http_error NotFound 404 Map.empty)) (Returns ''ok'')))
        ''999'' 99 100 (\<lambda>k. False) fresh_session
      = (Inr [StError (CannotLikeTweet TweetNotFound)], fresh_session, [GetTweet ''999''])"
proof -
  let ?c = "remote_client (Raises (http_error NotFound 404 Map.empty)) (Returns ''ok'')"
  have a: "fst (check_tweet ?c ''999'') = (False, TweetNotFound)"
    by (simp add: check_tweet_def remote_client_def http_error_def)
  have b: "\<not> get_rate_limited fresh_session"
    by (simp add: get_rate_limited_def fresh_session_def)
  show ?thesis
    using a b like_tweet_target_not_found [OF a, where localtime = localtime_32 and now' = 100
      and s = fresh_session and now = 99 and cancel = "\<lambda>k. False"]
    by simp
qed

section \<open>A rate limit raised by the verification fetch\<close>

text \<open>
  Claim C10. When the verification fetch raises \<^verbatim>\<open>tweepy.TooManyRequests\<close>,
  \<^verbatim>\<open>check_tweet\<close> catches it as any other exception: \<^verbatim>\<open>like_tweet\<close> returns the
  generic failure \<^verbatim>\<open>Cannot like tweet: Error checking tweet: ...\<close>, not the
  rate-limit message, and leaves the session as it was, so no rate limit is recorded.
  In every run of \<^verbatim>\<open>like_tweet\<close> that changes one of the three rate-limit fields, the
  verification had succeeded and it was the write call that raised
  \<^verbatim>\<open>tweepy.TooManyRequests\<close>.
\<close>

theorem verify_rate_limit_not_recorded:
  "(get_tweet c tid = Raises e \<and> exn_cls e = TooManyRequests \<longrightarrow>
      like_tweet localtime (Some c) tid now s =
        (Inr (False, CannotLikeTweet (ErrorCheckingTweet (exn_str e))), s, [GetTweet tid]))
   \<and> (rate_limited (fst (snd (like_tweet localtime cl tid now s))) \<noteq> rate_limited s
        \<or> rate_limit_reset (fst (snd (like_tweet localtime cl tid now s))) \<noteq> rate_limit_reset s
        \<or> rate_limit_retry_after (fst (snd (like_tweet localtime cl tid now s))) \<noteq> rate_limit_retry_after s
      \<longrightarrow> (\<exists>c' e'. cl = Some c' \<and> fst (fst (check_tweet c' tid)) \<and> like c' tid = Raises e'
                    \<and> exn_cls e' = TooManyRequests))"
proof (intro conjI impI)
  assume h: "get_tweet c tid = Raises e \<and> exn_cls e = TooManyRequests"
  then have ct: "check_tweet c tid = ((False, ErrorCheckingTweet (exn_str e)), [GetTweet tid])"
    by (simp add: check_tweet_def)
  then have "\<not> fst (fst (check_tweet c tid))" by simp
  from like_tweet_unverified [OF this, where localtime = localtime and now = now and s = s] ct
  show "like_tweet localtime (Some c) tid now s =
        (Inr (False, CannotLikeTweet (ErrorCheckingTweet (exn_str e))), s, [GetTweet tid])"
    by simp
next
  assume d: "rate_limited (fst (snd (like_tweet localtime cl tid now s))) \<noteq> rate_limited s
        \<or> rate_limit_reset (fst (snd (like_tweet localtime cl tid now s))) \<noteq> rate_limit_reset s
        \<or> rate_limit_retry_after (fst (snd (like_tweet localtime cl tid now s))) \<noteq> rate_limit_retry_after s"
  obtain res s' calls where lt: "like_tweet localtime cl tid now s = (res, s', calls)"
    by (metis prod.collapse)
  show "\<exists>c' e'. cl = Some c' \<and> fst (fst (check_tweet c' tid)) \<and> like c' tid = Raises e'
                    \<and> exn_cls e' = TooManyRequests"
    using like_tweet_rate_fields [OF lt] d lt by simp
qed

theorem verify_rate_limit_not_recorded_witness:
  "like_tweet localtime_32 (Some (remote_client (Raises (http_error TooManyRequests 429 Map.empty)) (Returns ''ok'')))
      ''42'' 100 fresh_session
     = (Inr (False, CannotLikeTweet (ErrorCheckingTweet ''HTTP error'')), fresh_session, [GetTweet ''42''])
   \<and> rate_limited (fst (snd (like_tweet localtime_32
        (Some (remote_client (Returns (Data None)) (Raises (http_error TooManyRequests 429 Map.empty))))
        ''42'' 100 fresh_session))) \<noteq> rate_limited fresh_session
   \<and> (\<exists>c' e'. Some (remote_client (Returns (Data None)) (Raises (http_error TooManyRequests 429 Map.empty)))
                = Some c' \<and> fst (fst (check_tweet c' ''42'')) \<and> like c' ''42'' = Raises e'
                \<and> exn_cls e' = TooManyRequests)"
proof -
  let ?c = "remote_client (Raises (http_error TooManyRequests 429 Map.empty)) (Returns ''ok'')"
  let ?d = "remote_client (Returns (Data None)) (Raises (http_error TooManyRequests 429 Map.empty))"
  have a: "get_tweet ?c ''42'' = Raises (http_error TooManyRequests 429 Map.empty)
           \<and> exn_cls (http_error TooManyRequests 429 Map.empty) = TooManyRequests"
    by (simp add: remote_client_def http_error_def)
  have b: "rate_limited (fst (snd (like_tweet localtime_32 (Some ?d) ''42'' 100 fresh_session)))
             \<noteq> rate_limited fresh_session"
    by (simp add: like_tweet_def check_tweet_def remote_client_def http_error_def
        store_rate_limit_info_def extract_rate_limit_info_def read_rate_limit_headers_def
        localtime_32_def py_int_def fresh_session_def)
  show ?thesis
    using a b
      verify_rate_limit_not_recorded [where localtime = localtime_32 and c = ?c
        and tid = "''42''" and e = "http_error TooManyRequests 429 Map.empty" and now = 100
        and s = fresh_session and cl = "Some ?c"]
      verify_rate_limit_not_recorded [where localtime = localtime_32 and c = ?d
        and tid = "''42''" and e = "http_error TooManyRequests 429 Map.empty" and now = 100
        and s = fresh_session and cl = "Some ?d"]
    by (simp add: http_error_def)
qed

section \<open>The pre-check of the Like Tweet button\<close>

text \<open>
  Claim C1 as stated does not hold for every press of the button: with a rate limit
  recorded until 1000 and the clock at 900, a press with an empty tweet id is answered
  by \<^verbatim>\<open>Please enter a Tweet ID\<close>, which line 474 checks before the rate limit, not by
  the rate-limit error.
\<close>

theorem like_button_empty_id_counterexample:
  "get_rate_limited (limited_session 1000 180)
   \<and> rate_limit_reset (limited_session 1000 180) = Some 1000
   \<and> (900 :: real) < real_of_int 1000
   \<and> like_button localtime_32 (Some (remote_client (Returns (Data None)) (Returns ''ok''))) [] 900 900
        (\<lambda>k. False) (limited_session 1000 180)
      = (Inr [ErrorPleaseEnterTweetId], limited_session 1000 180, [])"
  by (simp add: like_button_def get_rate_limited_def limited_session_def)

text \<open>
  Claim C1, amended. When a rate limit is recorded and the clock reading \<open>now\<close> is before
  the recorded reset time, a press of the Like Tweet button issues no remote call
  (neither the verification fetch nor the write) and leaves the session unchanged; and
  when the tweet id is not empty, what it reports is the error
  \<^verbatim>\<open>Currently rate limited. Please wait ... seconds\<close> with the wait \<open>reset - now\<close>
  computed from the recorded reset time.
\<close>

theorem like_button_rate_limited:
  assumes "rate_limited s = Some True"
    and "rate_limit_reset s = Some reset"
    and "now < real_of_int reset"
  shows "snd (like_button localtime cl tid now now' cancel s) = (s, [])
       \<and> (tid \<noteq> [] \<longrightarrow>
            fst (like_button localtime cl tid now now' cancel s)
              = Inr [ErrorCurrentlyRateLimited (real_of_int reset - now)])"
  using assms by (simp add: like_button_def get_rate_limited_def Let_def max_def)

theorem like_button_rate_limited_witness:
  "rate_limited (limited_session 1000 180) = Some True
   \<and> rate_limit_reset (limited_session 1000 180) = Some 1000
   \<and> (900 :: real) < real_of_int 1000
   \<and> like_button localtime_32 (Some (remote_client (Returns (Data None)) (Returns ''ok''))) ''42'' 900 901
        (\<lambda>k. False) (limited_session 1000 180)
      = (Inr [ErrorCurrentlyRateLimited 100], limited_session 1000 180, [])"
proof -
  have a: "rate_limited (limited_session 1000 180) = Some True"
    and b: "rate_limit_reset (limited_session 1000 180) = Some 1000"
    by (simp_all add: limited_session_def)
  have c: "(900 :: real) < real_of_int 1000" by simp
  show ?thesis
    using a b c
      like_button_rate_limited [OF a b c, where localtime = localtime_32
        and cl = "Some (remote_client (Returns (Data None)) (Returns ''ok''))" and tid = "''42''"
        and now' = 901 and cancel = "\<lambda>k. False"]
    by (simp add: prod_eq_iff)
qed

section \<open>Recording a rate limit and asking whether it is active\<close>

lemma py_int_upper: "x < real_of_int (py_int x + 180)"
  unfolding py_int_def by (simp; linarith)

lemma extract_rate_limit_info_Inr:
  "extract_rate_limit_info localtime e now = Inr info \<longleftrightarrow>
     read_rate_limit_headers e now = Inr info \<and> localtime (reset_time info) = None"
  by (auto simp: extract_rate_limit_info_def split: sum.splits option.splits)

lemma store_rate_limit_info_Inr:
  "store_rate_limit_info localtime e now s = Inr (info, s1) \<longleftrightarrow>
     read_rate_limit_headers e now = Inr info \<and> localtime (reset_time info) = None
     \<and> s1 = s\<lparr>rate_limited := Some True, rate_limit_reset := Some (reset_time info),
                 rate_limit_retry_after := Some (retry_after info)\<rparr>"
proof (cases "extract_rate_limit_info localtime e now")
  case (Inl err)
  then have "\<not> (read_rate_limit_headers e now = Inr info \<and> localtime (reset_time info) = None)"
    using extract_rate_limit_info_Inr [of localtime e now info] by simp
  then show ?thesis using Inl by (auto simp: store_rate_limit_info_def)
next
  case (Inr i)
  then have "read_rate_limit_headers e now = Inr i" and "localtime (reset_time i) = None"
    using extract_rate_limit_info_Inr [of localtime e now i] by simp_all
  then show ?thesis using Inr by (auto simp: store_rate_limit_info_def)
qed

text \<open>
  Claim C3 as stated fails when the header names a reset time that has passed: a
  rate-limit error with \<^verbatim>\<open>x-rate-limit-reset: 100\<close> recorded at time 200 stores reset
  time 100, and the warning block run at the same time 200 finds no time remaining,
  shows nothing and clears the flag.
\<close>

theorem reset_in_past_counterexample:
  "store_rate_limit_info localtime_32
      (http_error TooManyRequests 429 [''x-rate-limit-reset'' \<mapsto> IntText 100]) 200 fresh_session
     = Inr (\<lparr>reset_time = 100, retry_after = 0\<rparr>, limited_session 100 0)
   \<and> show_rate_limit_warning localtime_32 200 (limited_session 100 0)
     = Inr ([], (limited_session 100 0)\<lparr>rate_limited := Some False\<rparr>)"
  by (simp add: store_rate_limit_info_def extract_rate_limit_info_def
      read_rate_limit_headers_def localtime_32_def http_error_def py_int_def
      show_rate_limit_warning_def get_rate_limited_def limited_session_def)

text \<open>
  Claim C3, amended. After lines 200-206 have recorded a rate limit at time \<open>now\<close>, the
  warning block run at the same \<open>now\<close> shows the warning and keeps the flag whenever the
  recorded reset time is later than \<open>now\<close>; it always is when the error carries neither
  header (the default of 180 seconds). At every \<open>now'\<close> at or after the recorded reset time
  the block shows no warning and sets \<^verbatim>\<open>rate_limited\<close> to \<^verbatim>\<open>False\<close>.
\<close>

theorem recorded_limit_active_until_reset:
  assumes "store_rate_limit_info localtime e now s = Inr (info, s1)"
  shows "(now < real_of_int (reset_time info) \<longrightarrow>
            show_rate_limit_warning localtime now s1 =
              Inr ([WarningRateLimited (real_of_int (reset_time info) - now),
                    WriteResetTime (reset_time info)], s1))
       \<and> ((exn_response e = None
            \<or> (\<exists>r. exn_response e = Some r \<and> headers r ''x-rate-limit-reset'' = None
                    \<and> headers r ''retry-after'' = None))
           \<longrightarrow> now < real_of_int (reset_time info))
       \<and> (\<forall>now'. real_of_int (reset_time info) \<le> now' \<longrightarrow>
            show_rate_limit_warning localtime now' s1 = Inr ([], s1\<lparr>rate_limited := Some False\<rparr>))"
proof -
  from assms have rd: "read_rate_limit_headers e now = Inr info"
    and ok: "localtime (reset_time info) = None"
    and s1: "s1 = s\<lparr>rate_limited := Some True, rate_limit_reset := Some (reset_time info),
                   rate_limit_retry_after := Some (retry_after info)\<rparr>"
    by (simp_all add: store_rate_limit_info_Inr)
  have g: "get_rate_limited s1" and r: "rate_limit_reset s1 = Some (reset_time info)"
    using s1 by (simp_all add: get_rate_limited_def)
  have A: "now < real_of_int (reset_time info) \<longrightarrow>
            show_rate_limit_warning localtime now s1 =
              Inr ([WarningRateLimited (real_of_int (reset_time info) - now),
                    WriteResetTime (reset_time info)], s1)"
    using g r ok by (simp add: show_rate_limit_warning_def max_def)
  have B: "(exn_response e = None
            \<or> (\<exists>r. exn_response e = Some r \<and> headers r ''x-rate-limit-reset'' = None
                    \<and> headers r ''retry-after'' = None))
           \<longrightarrow> now < real_of_int (reset_time info)"
  proof
    assume "exn_response e = None
            \<or> (\<exists>r. exn_response e = Some r \<and> headers r ''x-rate-limit-reset'' = None
                    \<and> headers r ''retry-after'' = None)"
    then have "reset_time info = py_int now + 180"
      using rd by (auto simp: read_rate_limit_headers_def)
    then show "now < real_of_int (reset_time info)" using py_int_upper [of now] by simp
  qed
  have C: "\<forall>now'. real_of_int (reset_time info) \<le> now' \<longrightarrow>
            show_rate_limit_warning localtime now' s1 = Inr ([], s1\<lparr>rate_limited := Some False\<rparr>)"
    using g r by (simp add: show_rate_limit_warning_def max_def)
  from A B C show ?thesis by blast
qed

theorem recorded_limit_active_until_reset_witness:
  "store_rate_limit_info localtime_32 (http_error TooManyRequests 429 Map.empty) 1000 fresh_session
     = Inr (\<lparr>reset_time = 1180, retry_after = 180\<rparr>, limited_session 1180 180)
   \<and> show_rate_limit_warning localtime_32 1000 (limited_session 1180 180)
     = Inr ([WarningRateLimited 180, WriteResetTime 1180], limited_session 1180 180)
   \<and> show_rate_limit_warning localtime_32 1180 (limited_session 1180 180)
     = Inr ([], (limited_session 1180 180)\<lparr>rate_limited := Some False\<rparr>)"
proof -
  have a: "store_rate_limit_info localtime_32 (http_error TooManyRequests 429 Map.empty) 1000 fresh_session
     = Inr (\<lparr>reset_time = 1180, retry_after = 180\<rparr>, limited_session 1180 180)"
    by (simp add: store_rate_limit_info_def extract_rate_limit_info_def
      read_rate_limit_headers_def localtime_32_def http_error_def py_int_def
        limited_session_def)
  show ?thesis
    using a recorded_limit_active_until_reset [OF a] by simp
qed

section \<open>The countdown from three\<close>

lemma range_down_3: "range_down 3 = [3, 2, 1]"
  by (simp add: range_down_def eval_nat_numeral)

text \<open>
  Claim C4 as stated gives the ticks \<open>3, 2, 1, 0\<close>. The loop runs over
  \<^verbatim>\<open>range(3, 0, -1)\<close>, which ends at 1: the values shown are \<open>3, 2, 1\<close> and no tick
  shows 0.
\<close>

theorem countdown_three_counterexample:
  "countdown (\<lambda>k. False) 0 (range_down 3) = ([3, 2, 1], Exhausted)
   \<and> fst (countdown (\<lambda>k. False) 0 (range_down 3)) \<noteq> [3, 2, 1, 0]"
  by (simp add: range_down_3)

text \<open>
  Claim C4, amended. The countdown over three seconds whose cancel flag is never set
  shows exactly \<open>3, 2, 1\<close> and ends because its range ran out; when the flag is not set
  at the first iteration and is set at the second, it shows exactly one value, \<open>3\<close>, and
  ends by \<^verbatim>\<open>break\<close>.
\<close>

theorem countdown_three:
  "((\<forall>k. \<not> cancel k) \<longrightarrow> countdown cancel 0 (range_down 3) = ([3, 2, 1], Exhausted))
   \<and> (\<not> cancel 0 \<and> cancel 1 \<longrightarrow> countdown cancel 0 (range_down 3) = ([3], Break))"
  by (simp add: range_down_3)

theorem countdown_three_witness:
  "countdown (\<lambda>k. False) 0 (range_down 3) = ([3, 2, 1], Exhausted)
   \<and> countdown (\<lambda>k. k = 1) 0 (range_down 3) = ([3], Break)"
  using countdown_three [of "\<lambda>k. False"] countdown_three [of "\<lambda>k. k = 1"] by simp

section \<open>What a rate-limit error records\<close>

text \<open>
  Claim C6 as stated fails on four inputs, all on a platform with 32-bit timestamps.
  With \<^verbatim>\<open>retry-after: -5\<close> and no reset header at time 1000, the stored reset time is
  995 and the stored \<^verbatim>\<open>retry_after\<close> is \<open>-5\<close>, the header's own number, where the
  claim's \<open>max (resetAt - now) 0\<close> is 0. With no header at clock reading 1000.5, the
  stored reset time is 1180, counted from the whole second 1000, not \<open>now + 180\<close>. With a
  \<^verbatim>\<open>retry-after\<close> header that is not an integer, \<^verbatim>\<open>int\<close> raises \<^verbatim>\<open>ValueError\<close> and
  nothing is stored. With a reset header beyond the platform's time range, line 152
  raises \<^verbatim>\<open>OverflowError\<close> and nothing is stored.
\<close>

theorem negative_retry_after_counterexample:
  "store_rate_limit_info localtime_32
      (http_error TooManyRequests 429 [''retry-after'' \<mapsto> IntText (- 5)]) 1000 fresh_session
     = Inr (\<lparr>reset_time = 995, retry_after = - 5\<rparr>, limited_session 995 (- 5))
   \<and> py_int 1000 = 1000
   \<and> (- 5 :: int) \<noteq> max (995 - py_int 1000) 0
   \<and> store_rate_limit_info localtime_32
      (http_error TooManyRequests 429 Map.empty) (2001 / 2) fresh_session
     = Inr (\<lparr>reset_time = 1180, retry_after = 180\<rparr>, limited_session 1180 180)
   \<and> real_of_int 1180 \<noteq> 2001 / 2 + 180
   \<and> store_rate_limit_info localtime_32
      (http_error TooManyRequests 429 [''retry-after'' \<mapsto> NonIntText]) 1000 fresh_session
     = Inl ValueError
   \<and> store_rate_limit_info localtime_32
      (http_error TooManyRequests 429 [''x-rate-limit-reset'' \<mapsto> IntText 100000000000000000000])
      1000 fresh_session
     = Inl OverflowError"
  by (simp add: store_rate_limit_info_def extract_rate_limit_info_def read_rate_limit_headers_def
      localtime_32_def http_error_def py_int_def limited_session_def)

text \<open>
  Claim C6, amended. Let \<open>n\<close> be the clock reading in whole seconds,
  \<^verbatim>\<open>int(time.time())\<close>, and let the reset time named below be one that
  \<^verbatim>\<open>time.localtime\<close> accepts. Then lines 200-206 record the limit: they set
  \<^verbatim>\<open>rate_limited\<close> and store the reset time and \<^verbatim>\<open>retry_after\<close>, where
  \<^item> with a reset header holding the integer \<open>v\<close>, the reset time is \<open>v\<close> and
    \<^verbatim>\<open>retry_after\<close> is \<open>max (v - n) 0\<close>;
  \<^item> otherwise, with a \<^verbatim>\<open>retry-after\<close> header holding an integer \<open>d\<close> that is not
    negative, the reset time is \<open>n + d\<close> and \<^verbatim>\<open>retry_after\<close> is
    \<open>max (resetAt - n) 0 = d\<close> (so 120 gives \<open>n + 120\<close> and 120);
  \<^item> otherwise, with no response or neither header, the reset time is \<open>n + 180\<close> and
    \<^verbatim>\<open>retry_after\<close> is \<open>max (resetAt - n) 0 = 180\<close>.
  Nothing is said here of a negative \<^verbatim>\<open>retry-after\<close>, of a header that is not an
  integer, or of a reset time outside the platform's range.
\<close>

theorem store_rate_limit_info_rule:
  "(exn_response e = Some r \<and> headers r ''x-rate-limit-reset'' = Some (IntText v)
      \<and> localtime v = None \<longrightarrow>
      store_rate_limit_info localtime e now s =
        Inr (\<lparr>reset_time = v, retry_after = max (v - py_int now) 0\<rparr>,
             s\<lparr>rate_limited := Some True, rate_limit_reset := Some v,
               rate_limit_retry_after := Some (max (v - py_int now) 0)\<rparr>))
   \<and> (exn_response e = Some r \<and> headers r ''x-rate-limit-reset'' = None
      \<and> headers r ''retry-after'' = Some (IntText d) \<and> 0 \<le> d
      \<and> localtime (py_int now + d) = None \<longrightarrow>
      store_rate_limit_info localtime e now s =
        Inr (\<lparr>reset_time = py_int now + d,
              retry_after = max ((py_int now + d) - py_int now) 0\<rparr>,
             s\<lparr>rate_limited := Some True, rate_limit_reset := Some (py_int now + d),
               rate_limit_retry_after := Some (max ((py_int now + d) - py_int now) 0)\<rparr>)
      \<and> max ((py_int now + d) - py_int now) 0 = d)
   \<and> ((exn_response e = None
        \<or> (exn_response e = Some r \<and> headers r ''x-rate-limit-reset'' = None
            \<and> headers r ''retry-after'' = None))
      \<and> localtime (py_int now + 180) = None \<longrightarrow>
      store_rate_limit_info localtime e now s =
        Inr (\<lparr>reset_time = py_int now + 180,
              retry_after = max ((py_int now + 180) - py_int now) 0\<rparr>,
             s\<lparr>rate_limited := Some True, rate_limit_reset := Some (py_int now + 180),
               rate_limit_retry_after := Some (max ((py_int now + 180) - py_int now) 0)\<rparr>)
      \<and> max ((py_int now + 180) - py_int now) 0 = (180 :: int))"
proof (intro conjI impI)
  assume "exn_response e = Some r \<and> headers r ''x-rate-limit-reset'' = Some (IntText v)
      \<and> localtime v = None"
  then show "store_rate_limit_info localtime e now s =
        Inr (\<lparr>reset_time = v, retry_after = max (v - py_int now) 0\<rparr>,
             s\<lparr>rate_limited := Some True, rate_limit_reset := Some v,
               rate_limit_retry_after := Some (max (v - py_int now) 0)\<rparr>)"
    by (simp add: store_rate_limit_info_Inr read_rate_limit_headers_def)
next
  assume h: "exn_response e = Some r \<and> headers r ''x-rate-limit-reset'' = None
      \<and> headers r ''retry-after'' = Some (IntText d) \<and> 0 \<le> d
      \<and> localtime (py_int now + d) = None"
  then show "store_rate_limit_info localtime e now s =
        Inr (\<lparr>reset_time = py_int now + d,
              retry_after = max ((py_int now + d) - py_int now) 0\<rparr>,
             s\<lparr>rate_limited := Some True, rate_limit_reset := Some (py_int now + d),
               rate_limit_retry_after := Some (max ((py_int now + d) - py_int now) 0)\<rparr>)"
    by (simp add: store_rate_limit_info_Inr read_rate_limit_headers_def)
  from h show "max ((py_int now + d) - py_int now) 0 = d" by simp
next
  assume h: "(exn_response e = None
        \<or> (exn_response e = Some r \<and> headers r ''x-rate-limit-reset'' = None
            \<and> headers r ''retry-after'' = None))
      \<and> localtime (py_int now + 180) = None"
  then show "store_rate_limit_info localtime e now s =
        Inr (\<lparr>reset_time = py_int now + 180,
              retry_after = max ((py_int now + 180) - py_int now) 0\<rparr>,
             s\<lparr>rate_limited := Some True, rate_limit_reset := Some (py_int now + 180),
               rate_limit_retry_after := Some (max ((py_int now + 180) - py_int now) 0)\<rparr>)"
    by (auto simp: store_rate_limit_info_Inr read_rate_limit_headers_def)
  show "max ((py_int now + 180) - py_int now) 0 = (180 :: int)" by simp
qed

theorem store_rate_limit_info_rule_witness:
  "exn_response (http_error TooManyRequests 429 [''retry-after'' \<mapsto> IntText 120])
     = Some \<lparr>headers = [''retry-after'' \<mapsto> IntText 120], status_code = 429,
             resp_text = Some ''body''\<rparr>
   \<and> (0 :: int) \<le> 120 \<and> py_int 1000 = 1000 \<and> localtime_32 1120 = None
   \<and> store_rate_limit_info localtime_32
        (http_error TooManyRequests 429 [''retry-after'' \<mapsto> IntText 120]) 1000 fresh_session
       = Inr (\<lparr>reset_time = 1120, retry_after = 120\<rparr>, limited_session 1120 120)
   \<and> exn_response (http_error TooManyRequests 429 [''x-rate-limit-reset'' \<mapsto> IntText 1500])
     = Some \<lparr>headers = [''x-rate-limit-reset'' \<mapsto> IntText 1500], status_code = 429,
             resp_text = Some ''body''\<rparr>
   \<and> localtime_32 1500 = None
   \<and> store_rate_limit_info localtime_32
        (http_error TooManyRequests 429 [''x-rate-limit-reset'' \<mapsto> IntText 1500]) 1000
        fresh_session
       = Inr (\<lparr>reset_time = 1500, retry_after = 500\<rparr>, limited_session 1500 500)
   \<and> localtime_32 1180 = None
   \<and> store_rate_limit_info localtime_32 (Exn TooManyRequests ''limit'' None) 1000 fresh_session
       = Inr (\<lparr>reset_time = 1180, retry_after = 180\<rparr>, limited_session 1180 180)"
proof -
  let ?h = "[''retry-after'' \<mapsto> IntText 120]"
  let ?g = "[''x-rate-limit-reset'' \<mapsto> IntText 1500]"
  have p: "py_int 1000 = 1000" by (simp add: py_int_def)
  have a: "exn_response (http_error TooManyRequests 429 ?h)
             = Some \<lparr>headers = ?h, status_code = 429, resp_text = Some ''body''\<rparr>"
    and b: "exn_response (http_error TooManyRequests 429 ?g)
             = Some \<lparr>headers = ?g, status_code = 429, resp_text = Some ''body''\<rparr>"
    by (simp_all add: http_error_def)
  have l: "localtime_32 1120 = None" "localtime_32 1500 = None" "localtime_32 1180 = None"
    by (simp_all add: localtime_32_def)
  show ?thesis
    using p a b l
      store_rate_limit_info_rule [where localtime = localtime_32
        and e = "http_error TooManyRequests 429 ?h" and now = 1000 and s = fresh_session
        and r = "\<lparr>headers = ?h, status_code = 429, resp_text = Some ''body''\<rparr>" and d = 120]
      store_rate_limit_info_rule [where localtime = localtime_32
        and e = "http_error TooManyRequests 429 ?g" and now = 1000 and s = fresh_session
        and r = "\<lparr>headers = ?g, status_code = 429, resp_text = Some ''body''\<rparr>" and v = 1500]
      store_rate_limit_info_rule [where localtime = localtime_32
        and e = "Exn TooManyRequests ''limit'' None" and now = 1000 and s = fresh_session]
    by (simp add: limited_session_def)
qed

section \<open>Failed authentication\<close>

text \<open>
  Claim C9 as stated gives invalid credentials an error kind of their own. When
  \<^verbatim>\<open>get_me\<close> raises \<^verbatim>\<open>tweepy.Unauthorized\<close> with status 401,
  \<^verbatim>\<open>authenticate_twitter\<close> returns the generic \<^verbatim>\<open>Authentication failed: ...\<close> with
  the raw message, the status code and the details, exactly what it returns for any
  other exception with that message and response: its single \<^verbatim>\<open>except Exception\<close>
  clause does not look at the class.
\<close>

theorem authenticate_unauthorized_counterexample:
  "authenticate_twitter (refusing_service (http_error Unauthorized 401 Map.empty))
      ''b'' ''k'' ''s'' ''t'' ''u''
     = ((None, False, AuthenticationFailed ''HTTP error'' (Some 401) (Some ''body'')), [GetMe])
   \<and> authenticate_twitter (refusing_service (http_error Unauthorized 401 Map.empty))
      ''b'' ''k'' ''s'' ''t'' ''u''
     = authenticate_twitter (refusing_service (http_error OtherException 401 Map.empty))
      ''b'' ''k'' ''s'' ''t'' ''u''"
  by (simp add: authenticate_twitter_def refusing_service_def http_error_def details_def)

text \<open>
  Claim C9, amended. Whenever the identity call \<^verbatim>\<open>get_me\<close> raises, whatever the
  exception (invalid credentials included), \<^verbatim>\<open>authenticate_twitter\<close> returns no client,
  the flag \<^verbatim>\<open>False\<close> and the one generic message \<^verbatim>\<open>Authentication failed: {str(e)}\<close>
  with the status code when the exception has a response and the details when they can
  be read. Whenever \<^verbatim>\<open>get_me\<close> returns no user data, it returns no client, the flag
  \<^verbatim>\<open>False\<close> and the fixed text
  \<^verbatim>\<open>Authentication successful but couldn't fetch user details\<close>. These are the only
  failures: every call that returns the flag \<^verbatim>\<open>False\<close> returns no client and is one of
  the two. In each case \<^verbatim>\<open>get_me\<close> is the one remote call.
\<close>

theorem authenticate_twitter_failure:
  "(get_me (tweepy_Client b k sec t ts) = Raises e \<longrightarrow>
      authenticate_twitter tweepy_Client b k sec t ts =
        ((None, False,
          AuthenticationFailed (exn_str e) (map_option status_code (exn_response e)) (details e)),
         [GetMe]))
   \<and> (get_me (tweepy_Client b k sec t ts) = Returns NoUser \<longrightarrow>
      authenticate_twitter tweepy_Client b k sec t ts =
        ((None, False, CouldntFetchUserDetails), [GetMe]))
   \<and> (authenticate_twitter tweepy_Client b k sec t ts = ((cl, ok, msg), calls) \<and> \<not> ok \<longrightarrow>
      cl = None \<and> calls = [GetMe]
      \<and> ((\<exists>e'. get_me (tweepy_Client b k sec t ts) = Raises e'
                \<and> msg = AuthenticationFailed (exn_str e')
                          (map_option status_code (exn_response e')) (details e'))
          \<or> (get_me (tweepy_Client b k sec t ts) = Returns NoUser
              \<and> msg = CouldntFetchUserDetails)))"
proof -
  have raises: "authenticate_twitter tweepy_Client b k sec t ts =
        ((None, False,
          AuthenticationFailed (exn_str x) (map_option status_code (exn_response x)) (details x)),
         [GetMe])"
    if "get_me (tweepy_Client b k sec t ts) = Raises x" for x
    using that by (cases "exn_response x") (simp_all add: authenticate_twitter_def)
  have no_user: "authenticate_twitter tweepy_Client b k sec t ts =
        ((None, False, CouldntFetchUserDetails), [GetMe])"
    if "get_me (tweepy_Client b k sec t ts) = Returns NoUser"
    using that by (simp add: authenticate_twitter_def)
  have failed: "cl = None \<and> calls = [GetMe]
      \<and> ((\<exists>e'. get_me (tweepy_Client b k sec t ts) = Raises e'
                \<and> msg = AuthenticationFailed (exn_str e')
                          (map_option status_code (exn_response e')) (details e'))
          \<or> (get_me (tweepy_Client b k sec t ts) = Returns NoUser
              \<and> msg = CouldntFetchUserDetails))"
    if h: "authenticate_twitter tweepy_Client b k sec t ts = ((cl, ok, msg), calls) \<and> \<not> ok"
  proof (cases "get_me (tweepy_Client b k sec t ts)")
    case (Raises x)
    from raises [OF Raises] h Raises show ?thesis by simp
  next
    case (Returns m)
    show ?thesis
    proof (cases m)
      case NoUser
      with Returns have "get_me (tweepy_Client b k sec t ts) = Returns NoUser" by simp
      from no_user [OF this] h this show ?thesis by simp
    next
      case (User uid name)
      with Returns have "authenticate_twitter tweepy_Client b k sec t ts =
          ((Some (tweepy_Client b k sec t ts), True, AuthenticationSuccessful name uid), [GetMe])"
        by (simp add: authenticate_twitter_def)
      with h have False by auto
      then show ?thesis ..
    qed
  qed
  from raises no_user failed show ?thesis by blast
qed

theorem authenticate_twitter_failure_witness:
  "get_me (refusing_service (http_error Unauthorized 401 Map.empty) ''b'' ''k'' ''s'' ''t'' ''u'')
     = Raises (http_error Unauthorized 401 Map.empty)
   \<and> authenticate_twitter (refusing_service (http_error Unauthorized 401 Map.empty))
        ''b'' ''k'' ''s'' ''t'' ''u''
     = ((None, False, AuthenticationFailed ''HTTP error'' (Some 401) (Some ''body'')), [GetMe])
   \<and> get_me (silent_service ''b'' ''k'' ''s'' ''t'' ''u'') = Returns NoUser
   \<and> authenticate_twitter silent_service ''b'' ''k'' ''s'' ''t'' ''u''
     = ((None, False, CouldntFetchUserDetails), [GetMe])"
proof -
  let ?e = "http_error Unauthorized 401 Map.empty"
  have a: "get_me (refusing_service ?e ''b'' ''k'' ''s'' ''t'' ''u'') = Raises ?e"
    by (simp add: refusing_service_def)
  have b: "get_me (silent_service ''b'' ''k'' ''s'' ''t'' ''u'') = Returns NoUser"
    by (simp add: silent_service_def)
  have c: "exn_str ?e = ''HTTP error''"
    "map_option status_code (exn_response ?e) = Some 401" "details ?e = Some ''body''"
    by (simp_all add: http_error_def details_def)
  have "authenticate_twitter (refusing_service ?e) ''b'' ''k'' ''s'' ''t'' ''u''
     = ((None, False, AuthenticationFailed ''HTTP error'' (Some 401) (Some ''body'')), [GetMe])"
    using c
      authenticate_twitter_failure [where tweepy_Client = "refusing_service ?e" and b = "''b''"
        and k = "''k''" and sec = "''s''" and t = "''t''" and ts = "''u''" and e = ?e,
        THEN conjunct1, rule_format, OF a]
    by simp
  moreover have "authenticate_twitter silent_service ''b'' ''k'' ''s'' ''t'' ''u''
     = ((None, False, CouldntFetchUserDetails), [GetMe])"
    by (rule authenticate_twitter_failure [where tweepy_Client = silent_service and b = "''b''"
        and k = "''k''" and sec = "''s''" and t = "''t''" and ts = "''u''",
        THEN conjunct2, THEN conjunct1, rule_format, OF b])
  ultimately show ?thesis using a b by simp
qed

section \<open>The capacity estimate\<close>

lemma like_tweet_ignores_times:
  "fst (like_tweet localtime cl tid now (s\<lparr>last_request_time := l\<rparr>)) = fst (like_tweet localtime cl tid now s)
   \<and> snd (snd (like_tweet localtime cl tid now (s\<lparr>last_request_time := l\<rparr>)))
       = snd (snd (like_tweet localtime cl tid now s))
   \<and> (fst (snd (like_tweet localtime cl tid now (s\<lparr>last_request_time := l\<rparr>))))\<lparr>last_request_time := x\<rparr>
       = (fst (snd (like_tweet localtime cl tid now s)))\<lparr>last_request_time := x\<rparr>"
proof (cases cl)
  case None
  then show ?thesis by (simp add: like_tweet_no_client)
next
  case (Some c)
  show ?thesis
  proof (cases "fst (fst (check_tweet c tid))")
    case False
    then show ?thesis using Some like_tweet_unverified [OF False] by simp
  next
    case True
    obtain b m where cm: "check_tweet c tid = ((b, m), [GetTweet tid])"
      using check_tweet_calls [of c tid] by (metis prod.collapse)
    with True have b: "b" by simp
    show ?thesis
    proof (cases "like c tid")
      case (Returns r)
      then show ?thesis using Some cm b
        by (simp add: like_tweet_def store_request_time_def Let_def)
    next
      case (Raises e)
      then show ?thesis using Some cm b
        by (cases "exn_cls e"; cases "extract_rate_limit_info localtime e now")
           (simp_all add: like_tweet_def store_rate_limit_info_def)
    qed
  qed
qed

lemma rate_fields_ignore_times:
  assumes "s'\<lparr>last_request_time := x\<rparr> = t'\<lparr>last_request_time := x\<rparr>"
  shows "get_rate_limited s' = get_rate_limited t'"
    and "rate_limit_reset s' = rate_limit_reset t'"
    and "rate_limit_retry_after s' = rate_limit_retry_after t'"
proof -
  have "rate_limited (s'\<lparr>last_request_time := x\<rparr>) = rate_limited (t'\<lparr>last_request_time := x\<rparr>)"
    and "rate_limit_reset (s'\<lparr>last_request_time := x\<rparr>) = rate_limit_reset (t'\<lparr>last_request_time := x\<rparr>)"
    and "rate_limit_retry_after (s'\<lparr>last_request_time := x\<rparr>)
           = rate_limit_retry_after (t'\<lparr>last_request_time := x\<rparr>)"
    using assms by simp_all
  then show "get_rate_limited s' = get_rate_limited t'"
    and "rate_limit_reset s' = rate_limit_reset t'"
    and "rate_limit_retry_after s' = rate_limit_retry_after t'"
    by (simp_all add: get_rate_limited_def)
qed

lemma like_button_ignores_times:
  "fst (like_button localtime cl tid now now' cancel (s\<lparr>last_request_time := l\<rparr>))
     = fst (like_button localtime cl tid now now' cancel s)
   \<and> snd (snd (like_button localtime cl tid now now' cancel (s\<lparr>last_request_time := l\<rparr>)))
     = snd (snd (like_button localtime cl tid now now' cancel s))"
proof -
  have sw: "\<And>b. s\<lparr>last_request_time := l, rate_limited := b\<rparr>
               = s\<lparr>rate_limited := b\<rparr>\<lparr>last_request_time := l\<rparr>" by simp
  have g: "get_rate_limited (s\<lparr>last_request_time := l\<rparr>) = get_rate_limited s"
    by (simp add: get_rate_limited_def)
  {
    fix s0 :: session_state
    obtain res s' calls where a: "like_tweet localtime cl tid now' s0 = (res, s', calls)"
      by (metis prod.collapse)
    obtain res2 s2 calls2 where b: "like_tweet localtime cl tid now' (s0\<lparr>last_request_time := l\<rparr>) = (res2, s2, calls2)"
      by (metis prod.collapse)
    from like_tweet_ignores_times [where localtime = localtime and cl = cl and tid = tid and now = now' and s = s0 and l = l and x = undefined] a b
    have "res2 = res" "calls2 = calls"
      and e: "s2\<lparr>last_request_time := undefined\<rparr> = s'\<lparr>last_request_time := undefined\<rparr>"
      by simp_all
    note rate_fields_ignore_times [OF e]
    with \<open>res2 = res\<close> \<open>calls2 = calls\<close> a b
    have "\<exists>res s' s2 calls. like_tweet localtime cl tid now' s0 = (res, s', calls)
            \<and> like_tweet localtime cl tid now' (s0\<lparr>last_request_time := l\<rparr>) = (res, s2, calls)
            \<and> get_rate_limited s2 = get_rate_limited s'
            \<and> rate_limit_reset s2 = rate_limit_reset s'
            \<and> rate_limit_retry_after s2 = rate_limit_retry_after s'"
      by simp
  }
  note step = this
  show ?thesis
  proof (cases "tid = []")
    case True
    then show ?thesis by (simp add: like_button_def)
  next
    case False
    show ?thesis
    proof (cases "get_rate_limited s")
      case True
      from step [of "s\<lparr>rate_limited := Some False\<rparr>"]
      obtain res s' s2 calls where
        "like_tweet localtime cl tid now' (s\<lparr>rate_limited := Some False\<rparr>) = (res, s', calls)"
        "like_tweet localtime cl tid now' (s\<lparr>rate_limited := Some False\<rparr>\<lparr>last_request_time := l\<rparr>) = (res, s2, calls)"
        by blast
      then show ?thesis using False True g
        by (cases res) (simp_all add: like_button_def Let_def sw split: option.splits)
    next
      case nl: False
      from step [of s]
      obtain res s' s2 calls where
        "like_tweet localtime cl tid now' s = (res, s', calls)"
        "like_tweet localtime cl tid now' (s\<lparr>last_request_time := l\<rparr>) = (res, s2, calls)"
        "get_rate_limited s2 = get_rate_limited s'"
        "rate_limit_reset s2 = rate_limit_reset s'"
        "rate_limit_retry_after s2 = rate_limit_retry_after s'"
        by blast
      then show ?thesis using False nl g
        by (cases res) (auto simp: like_button_def split: option.splits prod.splits)
    qed
  qed
qed

text \<open>
  Claim C7. With a non-empty list of tracked request times, oldest \<open>t0\<close> and \<open>c\<close> entries,
  the page shows the estimate \<open>max (50 - c * 86400 / max (now - t0) 1) 0\<close>. The tracked
  times decide nothing else: replacing them by any other value \<open>l\<close> changes neither
  what a press of the Like Tweet button reports nor the remote calls it issues.
\<close>

theorem estimate_is_display_only:
  assumes "last_request_time s = Some (t0 # rest)"
  shows "show_estimate now s =
           [WriteRecentRequests (Suc (length rest)) (now - t0),
            WriteEstimatedRemaining
              (max (50 - real (Suc (length rest)) * 86400 / max (now - t0) 1) 0)]
       \<and> fst (like_button localtime cl tid n n' cancel (s\<lparr>last_request_time := l\<rparr>))
           = fst (like_button localtime cl tid n n' cancel s)
       \<and> snd (snd (like_button localtime cl tid n n' cancel (s\<lparr>last_request_time := l\<rparr>)))
           = snd (snd (like_button localtime cl tid n n' cancel s))"
  using assms like_button_ignores_times [where localtime = localtime and cl = cl and tid = tid and now = n and now' = n' and cancel = cancel and s = s and l = l]
  by (simp add: show_estimate_def est_remaining_def Let_def)

theorem estimate_is_display_only_witness:
  "last_request_time (fresh_session\<lparr>last_request_time := Some [100, 200]\<rparr>) = Some (100 # [200])
   \<and> show_estimate 43300 (fresh_session\<lparr>last_request_time := Some [100, 200]\<rparr>)
       = [WriteRecentRequests 2 43200, WriteEstimatedRemaining 46]"
proof -
  let ?s = "fresh_session\<lparr>last_request_time := Some [100, 200]\<rparr>"
  have a: "last_request_time ?s = Some (100 # [200])" by simp
  show ?thesis
    using a estimate_is_display_only [OF a, where now = 43300] by simp
qed

end
